theory Spec2Isabelle
  imports Main "HOL-Library.Sublist"
begin

section \<open>Python string helpers used by the compiler\<close>

text \<open>
  Strings are lists of 8-bit characters. \<open>py_isspace\<close> is Python's notion of a
  whitespace character (the one \<^verbatim>\<open>str.split()\<close> and \<^verbatim>\<open>str.strip()\<close> use) for
  code points below 256; \<open>css_whitespace\<close> is the character class of
  \<^verbatim>\<open>split_whitespace = re.compile('[^ \t\r\n\f]+').findall\<close>.
\<close>

definition py_isspace :: "char \<Rightarrow> bool" where
  "py_isspace c = (of_char c \<in> {9, 10, 11, 12, 13, 28, 29, 30, 31, 32, 133, 160 :: nat})"

definition css_whitespace :: "char \<Rightarrow> bool" where
  "css_whitespace c = (of_char c \<in> {32, 9, 13, 10, 12 :: nat})"

text \<open>
  The maximal runs of non-separator characters of a string, left to right:
  \<open>cur\<close> is the run being read.
\<close>

fun runs :: "(char \<Rightarrow> bool) \<Rightarrow> string \<Rightarrow> string \<Rightarrow> string list" where
  "runs sep cur [] = (if cur = [] then [] else [cur])"
| "runs sep cur (c # cs) =
     (if sep c then (if cur = [] then runs sep [] cs else cur # runs sep [] cs)
      else runs sep (cur @ [c]) cs)"

definition py_split :: "string \<Rightarrow> string list" where
  "py_split s = runs py_isspace [] s"

definition py_strip :: "string \<Rightarrow> string" where
  "py_strip s = rev (dropWhile py_isspace (rev (dropWhile py_isspace s)))"

definition split_whitespace :: "string \<Rightarrow> string list" where
  "split_whitespace s = runs css_whitespace [] s"

section \<open>The selector syntax tree\<close>

text \<open>
  The parser's node classes, as \<^verbatim>\<open>_compile_node\<close> tells them apart with
  \<^verbatim>\<open>isinstance\<close>. \<open>NegationSelector\<close> is the subclass of \<open>CompoundSelector\<close>
  that the compound branch inverts. \<open>OtherNode\<close> stands for an object of any
  other class. An attribute selector carries its namespace (\<open>None\<close>: any
  namespace), name, operator (\<open>None\<close>: presence only) and value. The argument
  tokens of a functional pseudo-class carry a type and a value.
\<close>

datatype token = Token (token_type: string) (token_value: string)

datatype selector =
    CombinedSelector selector string selector
  | CompoundSelector "selector list"
  | NegationSelector "selector list"
  | LocalNameSelector string
  | NamespaceSelector string
  | ClassSelector string
  | IDSelector string
  | AttributeSelector "string option" string "string option" string
  | PseudoClassSelector string
  | FunctionalPseudoClassSelector string "token list"
  | OtherNode

record parsed_selector =
  parsed_tree :: selector
  specificity :: "nat \<times> nat \<times> nat"
  pseudo_element :: "string option"

datatype error =
    SelectorError "string list"
  | NotImplementedError
  | TypeError
  | AttributeError

section \<open>Elements\<close>

text \<open>
  Modelled from the spec: the element-tree adapter (\<^verbatim>\<open>cssselect2.tree\<close>) that the
  generated matchers query is not part of the compiler. An element exposes an
  optional parent reference, an optional immediately-preceding-sibling
  reference, its position and the sibling list it belongs to, its child list,
  the underlying tree node (tag and text), local name, nullable namespace URL,
  nullable id, set of class names, attribute table and nullable language tag.
\<close>

record etree =
  tag :: string
  etree_text :: "string option"

datatype element = Element
  (etree_element: etree)
  (parent: "element option")
  (previous: "element option")
  (index: nat)
  (etree_siblings: "etree list")
  (etree_children: "etree list")
  (local_name: string)
  (namespace_url: "string option")
  (el_id: "string option")
  (classes: "string set")
  (attrib: "string \<rightharpoonup> string")
  (lang: "string option")

text \<open>
  Modelled from the spec: \<^verbatim>\<open>el.get_attr(key, default)\<close>, the attribute lookup
  by namespaced key; without a default the answer is \<open>None\<close> for a missing key.
\<close>

definition get_attr :: "element \<Rightarrow> string \<Rightarrow> string option" where
  "get_attr el key = attrib el key"

definition get_attr_default :: "element \<Rightarrow> string \<Rightarrow> string \<Rightarrow> string" where
  "get_attr_default el key d = (case attrib el key of None \<Rightarrow> d | Some v \<Rightarrow> v)"

text \<open>
  Modelled from the spec: \<^verbatim>\<open>el.iter_ancestors()\<close> and
  \<^verbatim>\<open>el.iter_previous_siblings()\<close>, the finite sequences of strict ancestors and
  of preceding siblings, nearest first: the chains of parent and of previous
  references.
\<close>

fun iter_ancestors :: "element \<Rightarrow> element list" where
  "iter_ancestors (Element e p pr i sibs ch ln ns ident cls at lg) =
     (case p of None \<Rightarrow> [] | Some q \<Rightarrow> q # iter_ancestors q)"

fun iter_previous_siblings :: "element \<Rightarrow> element list" where
  "iter_previous_siblings (Element e p pr i sibs ch ln ns ident cls at lg) =
     (case pr of None \<Rightarrow> [] | Some q \<Rightarrow> q # iter_previous_siblings q)"

section \<open>Generated expressions\<close>

text \<open>
  \<^verbatim>\<open>_compile_node\<close> returns Python source text that \<^verbatim>\<open>CompiledSelector\<close> evaluates
  as the body of \<^verbatim>\<open>lambda el: ...\<close>. The model keeps the syntax tree of that text:
  one constructor per template of the source. \<open>Lit0\<close> and \<open>Lit1\<close> are the
  texts \<^verbatim>\<open>'0'\<close> and \<^verbatim>\<open>'1'\<close>; no other template produces either text, so the
  source's comparisons with \<^verbatim>\<open>'0'\<close> and \<^verbatim>\<open>'1'\<close> are comparisons with these two
  constructors.
\<close>

datatype count =
    ElIndex                  \<comment> \<open>\<^verbatim>\<open>el.index\<close>\<close>
  | SiblingsAfter            \<comment> \<open>\<^verbatim>\<open>(len(el.etree_siblings) - el.index - 1)\<close>\<close>
  | SameTagBefore            \<comment> \<open>\<^verbatim>\<open>sum(1 for s in el.etree_siblings[:el.index] if s.tag == el.etree_element.tag)\<close>\<close>
  | SameTagAfter             \<comment> \<open>\<^verbatim>\<open>sum(1 for s in el.etree_siblings[el.index + 1:] if s.tag == el.etree_element.tag)\<close>\<close>

datatype expr =
    Lit0                                 \<comment> \<open>\<^verbatim>\<open>0\<close>\<close>
  | Lit1                                 \<comment> \<open>\<^verbatim>\<open>1\<close>\<close>
  | AndE "expr list"                     \<comment> \<open>\<^verbatim>\<open>(e1) and (e2) and ...\<close>\<close>
  | OrE expr expr                        \<comment> \<open>\<^verbatim>\<open>(e1) or (e2)\<close>\<close>
  | NotE expr                            \<comment> \<open>\<^verbatim>\<open>not (e)\<close>\<close>
  | ParentIsNotNone                      \<comment> \<open>\<^verbatim>\<open>el.parent is not None\<close>\<close>
  | PreviousIsNotNone                    \<comment> \<open>\<^verbatim>\<open>el.previous is not None\<close>\<close>
  | ParentIsNone                         \<comment> \<open>\<^verbatim>\<open>el.parent is None\<close>\<close>
  | AnyAncestors expr                    \<comment> \<open>\<^verbatim>\<open>any((e) for el in el.iter_ancestors())\<close>\<close>
  | NextParent expr                      \<comment> \<open>\<^verbatim>\<open>next(el is not None and (e) for el in [el.parent])\<close>\<close>
  | NextPrevious expr                    \<comment> \<open>\<^verbatim>\<open>next(el is not None and (e) for el in [el.previous])\<close>\<close>
  | AnyPreviousSiblings expr             \<comment> \<open>\<^verbatim>\<open>any((e) for el in el.iter_previous_siblings())\<close>\<close>
  | LocalNameEq string                   \<comment> \<open>\<^verbatim>\<open>el.local_name == name\<close>\<close>
  | NamespaceUrlEq string                \<comment> \<open>\<^verbatim>\<open>el.namespace_url == url\<close>\<close>
  | InClasses string                     \<comment> \<open>\<^verbatim>\<open>name in el.classes\<close>\<close>
  | IdEq string                          \<comment> \<open>\<^verbatim>\<open>el.id == ident\<close>\<close>
  | GetAttrIsNotNone string              \<comment> \<open>\<^verbatim>\<open>el.get_attr(key) is not None\<close>\<close>
  | GetAttrIsNone string                 \<comment> \<open>\<^verbatim>\<open>el.get_attr(key) is None\<close>\<close>
  | GetAttrEq string string              \<comment> \<open>\<^verbatim>\<open>el.get_attr(key) == value\<close>\<close>
  | InSplitWhitespace string string      \<comment> \<open>\<^verbatim>\<open>value in split_whitespace(el.get_attr(key, ""))\<close>\<close>
  | DashMatch string string string       \<comment> \<open>\<^verbatim>\<open>next(v == value or (v is not None and v.startswith(value2)) for v in [el.get_attr(key)])\<close>\<close>
  | StartsWith string string             \<comment> \<open>\<^verbatim>\<open>el.get_attr(key, "").startswith(value)\<close>\<close>
  | EndsWith string string               \<comment> \<open>\<^verbatim>\<open>el.get_attr(key, "").endswith(value)\<close>\<close>
  | Contains string string               \<comment> \<open>\<^verbatim>\<open>value in el.get_attr(key, "")\<close>\<close>
  | TagEq string                         \<comment> \<open>\<^verbatim>\<open>(el.etree_element.tag == name)\<close>\<close>
  | TagIn "string list"                  \<comment> \<open>\<^verbatim>\<open>(el.etree_element.tag in (name1, name2, ...))\<close>\<close>
  | IndexIs0                             \<comment> \<open>\<^verbatim>\<open>el.index == 0\<close>\<close>
  | IndexIsLast                          \<comment> \<open>\<^verbatim>\<open>el.index + 1 == len(el.etree_siblings)\<close>\<close>
  | NoSameTagBefore                      \<comment> \<open>\<^verbatim>\<open>all(s.tag != el.etree_element.tag for s in el.etree_siblings[:el.index])\<close>\<close>
  | NoSameTagAfter                       \<comment> \<open>\<^verbatim>\<open>all(s.tag != el.etree_element.tag for s in el.etree_siblings[el.index + 1:])\<close>\<close>
  | OneSibling                           \<comment> \<open>\<^verbatim>\<open>len(el.etree_siblings) == 1\<close>\<close>
  | NoOtherSameTag                       \<comment> \<open>\<^verbatim>\<open>all(s.tag != el.etree_element.tag or i == el.index for i, s in enumerate(el.etree_siblings))\<close>\<close>
  | IsEmpty                              \<comment> \<open>\<^verbatim>\<open>not (el.etree_children or el.etree_element.text)\<close>\<close>
  | LangMatch string string              \<comment> \<open>\<^verbatim>\<open>el.lang == lang or (el.lang is not None and el.lang.startswith(lang2))\<close>\<close>
  | CountEq count int                    \<comment> \<open>\<^verbatim>\<open>count == B\<close>\<close>
  | CountDivmod count int int            \<comment> \<open>\<^verbatim>\<open>next(r == 0 and n >= 0 for n, r in [divmod(count - B, a)])\<close>\<close>

subsection \<open>Evaluating an expression on an element\<close>

text \<open>
  The truth value of the expression with \<^verbatim>\<open>el\<close> bound to the element. Python's
  \<^verbatim>\<open>divmod\<close> on integers is floor division with the remainder carrying the sign
  of the divisor, which is \<open>div\<close> and \<open>mod\<close> on \<open>int\<close>.
\<close>

definition eval_count :: "count \<Rightarrow> element \<Rightarrow> int" where
  "eval_count c el =
     (case c of
        ElIndex \<Rightarrow> int (index el)
      | SiblingsAfter \<Rightarrow> int (length (etree_siblings el)) - int (index el) - 1
      | SameTagBefore \<Rightarrow>
          int (length (filter (\<lambda>s. tag s = tag (etree_element el))
                 (take (index el) (etree_siblings el))))
      | SameTagAfter \<Rightarrow>
          int (length (filter (\<lambda>s. tag s = tag (etree_element el))
                 (drop (index el + 1) (etree_siblings el)))))"

fun eval :: "expr \<Rightarrow> element \<Rightarrow> bool" where
  "eval Lit0 el = False"
| "eval Lit1 el = True"
| "eval (AndE es) el = (\<forall>e \<in> set es. eval e el)"
| "eval (OrE e1 e2) el = (eval e1 el \<or> eval e2 el)"
| "eval (NotE e) el = (\<not> eval e el)"
| "eval ParentIsNotNone el = (parent el \<noteq> None)"
| "eval PreviousIsNotNone el = (previous el \<noteq> None)"
| "eval ParentIsNone el = (parent el = None)"
| "eval (AnyAncestors e) el = (\<exists>a \<in> set (iter_ancestors el). eval e a)"
| "eval (NextParent e) el = (case parent el of None \<Rightarrow> False | Some p \<Rightarrow> eval e p)"
| "eval (NextPrevious e) el = (case previous el of None \<Rightarrow> False | Some p \<Rightarrow> eval e p)"
| "eval (AnyPreviousSiblings e) el = (\<exists>s \<in> set (iter_previous_siblings el). eval e s)"
| "eval (LocalNameEq n) el = (local_name el = n)"
| "eval (NamespaceUrlEq u) el = (namespace_url el = Some u)"
| "eval (InClasses c) el = (c \<in> classes el)"
| "eval (IdEq i) el = (el_id el = Some i)"
| "eval (GetAttrIsNotNone k) el = (get_attr el k \<noteq> None)"
| "eval (GetAttrIsNone k) el = (get_attr el k = None)"
| "eval (GetAttrEq k v) el = (get_attr el k = Some v)"
| "eval (InSplitWhitespace v k) el = (v \<in> set (split_whitespace (get_attr_default el k [])))"
| "eval (DashMatch v v2 k) el =
     (case get_attr el k of None \<Rightarrow> False | Some w \<Rightarrow> w = v \<or> prefix v2 w)"
| "eval (StartsWith k v) el = prefix v (get_attr_default el k [])"
| "eval (EndsWith k v) el = suffix v (get_attr_default el k [])"
| "eval (Contains v k) el = sublist v (get_attr_default el k [])"
| "eval (TagEq n) el = (tag (etree_element el) = n)"
| "eval (TagIn ns) el = (tag (etree_element el) \<in> set ns)"
| "eval IndexIs0 el = (index el = 0)"
| "eval IndexIsLast el = (index el + 1 = length (etree_siblings el))"
| "eval NoSameTagBefore el =
     (\<forall>s \<in> set (take (index el) (etree_siblings el)). tag s \<noteq> tag (etree_element el))"
| "eval NoSameTagAfter el =
     (\<forall>s \<in> set (drop (index el + 1) (etree_siblings el)). tag s \<noteq> tag (etree_element el))"
| "eval OneSibling el = (length (etree_siblings el) = 1)"
| "eval NoOtherSameTag el =
     (\<forall>(i, s) \<in> set (enumerate 0 (etree_siblings el)).
        tag s \<noteq> tag (etree_element el) \<or> i = index el)"
| "eval IsEmpty el =
     (\<not> (etree_children el \<noteq> [] \<or>
         (case etree_text (etree_element el) of None \<Rightarrow> False | Some t \<Rightarrow> t \<noteq> [])))"
| "eval (LangMatch l l2) el =
     (case lang el of None \<Rightarrow> False | Some g \<Rightarrow> g = l \<or> prefix l2 g)"
| "eval (CountEq c b) el = (eval_count c el = b)"
| "eval (CountDivmod c b a) el =
     ((eval_count c el - b) mod a = 0 \<and> (eval_count c el - b) div a \<ge> 0)"

subsection \<open>The order of evaluation\<close>

text \<open>
  Python evaluates \<^verbatim>\<open>and\<close> and \<^verbatim>\<open>or\<close> from left to right and stops at the first
  operand that decides the result; \<^verbatim>\<open>any\<close> consumes its generator up to the first
  true item. \<open>consumed p xs\<close> is the part of \<open>xs\<close> such a scan reads when it
  stops at the first item satisfying \<open>p\<close>. \<open>trace e el\<close> lists, in order, the
  elements that the evaluation of \<open>e\<close> reads a field of or calls a method on
  (the two literals read nothing).
\<close>

fun consumed :: "('a \<Rightarrow> bool) \<Rightarrow> 'a list \<Rightarrow> 'a list" where
  "consumed p [] = []"
| "consumed p (x # xs) = (if p x then [x] else x # consumed p xs)"

function (sequential) trace :: "expr \<Rightarrow> element \<Rightarrow> element list" where
  "trace Lit0 el = []"
| "trace Lit1 el = []"
| "trace (AndE es) el = concat (map (\<lambda>e. trace e el) (consumed (\<lambda>e. \<not> eval e el) es))"
| "trace (OrE e1 e2) el = trace e1 el @ (if eval e1 el then [] else trace e2 el)"
| "trace (NotE e) el = trace e el"
| "trace (AnyAncestors e) el =
     el # concat (map (trace e) (consumed (eval e) (iter_ancestors el)))"
| "trace (NextParent e) el = el # (case parent el of None \<Rightarrow> [] | Some p \<Rightarrow> trace e p)"
| "trace (NextPrevious e) el = el # (case previous el of None \<Rightarrow> [] | Some p \<Rightarrow> trace e p)"
| "trace (AnyPreviousSiblings e) el =
     el # concat (map (trace e) (consumed (eval e) (iter_previous_siblings el)))"
| "trace e el = [el]"
  by pat_completeness auto
termination
proof (relation "measure (\<lambda>(e, el). size e)")
  fix es :: "expr list" and el :: element and x :: expr
  assume "x \<in> set (consumed (\<lambda>e. \<not> eval e el) es)"
  then have "x \<in> set es" by (induction es) (auto split: if_splits)
  then have "size x \<le> size_list size es" by (rule size_list_estimation') simp
  then show "((x, el), (AndE es, el)) \<in> measure (\<lambda>(e, el). size e)" by simp
qed simp_all

section \<open>The expression builder\<close>

text \<open>\<^verbatim>\<open>html_tag_eq(*local_names)\<close>.\<close>

definition html_tag_eq :: "string list \<Rightarrow> expr" where
  "html_tag_eq local_names =
     (if length local_names = 1
      then TagEq (''{http://www.w3.org/1999/xhtml}'' @ hd local_names)
      else TagIn (map (\<lambda>n. ''{http://www.w3.org/1999/xhtml}'' @ n) local_names))"

text \<open>
  The \<^verbatim>\<open>CombinedSelector\<close> branch between the two recursive calls: the test on
  the left-hand side from its compiled text and the combinator. It is only
  reached when the left-hand text is not \<^verbatim>\<open>'0'\<close>.
\<close>

definition combinator_left :: "expr \<Rightarrow> string \<Rightarrow> error + expr" where
  "combinator_left left_inside combinator =
     (if left_inside = Lit1 then
        (if combinator \<in> {'' '', ''>''} then Inr ParentIsNotNone
         else if combinator \<in> {''~'', ''+''} then Inr PreviousIsNotNone
         else Inl (SelectorError [''Unknown combinator'', combinator]))
      else if combinator = '' '' then Inr (AnyAncestors left_inside)
      else if combinator = ''>'' then Inr (NextParent left_inside)
      else if combinator = ''+'' then Inr (NextPrevious left_inside)
      else if combinator = ''~'' then Inr (AnyPreviousSiblings left_inside)
      else Inl (SelectorError [''Unknown combinator'', combinator]))"

text \<open>
  The \<^verbatim>\<open>CompoundSelector\<close> branch after its simple selectors are compiled:
  \<open>exprs\<close> is \<^verbatim>\<open>map(_compile_node, selector.simple_selectors)\<close>.
\<close>

definition compound_test :: "expr list \<Rightarrow> expr" where
  "compound_test exprs =
     (let sub_expressions = filter (\<lambda>expr. expr \<noteq> Lit1) exprs in
      if length sub_expressions = 1 then hd sub_expressions
      else if Lit0 \<in> set sub_expressions then Lit0
      else if sub_expressions \<noteq> [] then AndE sub_expressions
      else Lit1)"

definition negate :: "expr \<Rightarrow> expr" where
  "negate test = (if test = Lit0 then Lit1 else if test = Lit1 then Lit0 else NotE test)"

text \<open>The \<^verbatim>\<open>AttributeSelector\<close> branch.\<close>

definition compile_attribute ::
  "string option \<Rightarrow> string \<Rightarrow> string option \<Rightarrow> string \<Rightarrow> error + expr" where
  "compile_attribute namespace name operator value =
     (case namespace of
        None \<Rightarrow> Inl NotImplementedError
      | Some ns \<Rightarrow>
          (let key = (if ns \<noteq> [] then ''{'' @ ns @ ''}'' @ name else name) in
           case operator of
             None \<Rightarrow> Inr (GetAttrIsNotNone key)
           | Some op \<Rightarrow>
               if op = ''='' then Inr (GetAttrEq key value)
               else if op = ''~='' then
                 (if length (py_split value) \<noteq> 1 \<or> py_strip value \<noteq> value then Inr Lit0
                  else Inr (InSplitWhitespace value key))
               else if op = ''|='' then Inr (DashMatch value (value @ ''-'') key)
               else if op = ''^='' then
                 (if value \<noteq> [] then Inr (StartsWith key value) else Inr Lit0)
               else if op = ''$='' then
                 (if value \<noteq> [] then Inr (EndsWith key value) else Inr Lit0)
               else if op = ''*='' then
                 (if value \<noteq> [] then Inr (Contains value key) else Inr Lit0)
               else Inl (SelectorError [''Unknown attribute operator'', op])))"

text \<open>The \<^verbatim>\<open>PseudoClassSelector\<close> branch.\<close>

definition compile_pseudo_class :: "string \<Rightarrow> error + expr" where
  "compile_pseudo_class name =
     (if name = ''link'' then
        Inr (AndE [html_tag_eq [''a'', ''area'', ''link''], GetAttrIsNotNone ''href''])
      else if name = ''enabled'' then
        Inr (OrE
          (AndE [html_tag_eq [''button'', ''input'', ''select'', ''textarea'',
                              ''option'', ''optgroup'', ''menuitem'', ''fieldset''],
                 GetAttrIsNone ''disabled''])
          (AndE [html_tag_eq [''a'', ''area'', ''link''], GetAttrIsNotNone ''href'']))
      else if name = ''disabled'' then
        Inr (AndE [html_tag_eq [''button'', ''input'', ''select'', ''textarea'',
                                ''option'', ''optgroup'', ''menuitem'', ''fieldset''],
                   GetAttrIsNotNone ''disabled''])
      else if name = ''checked'' then
        Inr (OrE
          (AndE [html_tag_eq [''input'', ''menuitem''], GetAttrIsNotNone ''checked''])
          (AndE [html_tag_eq [''option''], GetAttrIsNotNone ''selected'']))
      else if name \<in> {''visited'', ''hover'', ''active'', ''focus'', ''target''} then Inr Lit0
      else if name = ''root'' then Inr ParentIsNone
      else if name = ''first-child'' then Inr IndexIs0
      else if name = ''last-child'' then Inr IndexIsLast
      else if name = ''first-of-type'' then Inr NoSameTagBefore
      else if name = ''last-of-type'' then Inr NoSameTagAfter
      else if name = ''only-child'' then Inr OneSibling
      else if name = ''only-of-type'' then Inr NoOtherSameTag
      else if name = ''empty'' then Inr IsEmpty
      else Inl (SelectorError [''Unknown pseudo-class'', name]))"

text \<open>
  The \<^verbatim>\<open>FunctionalPseudoClassSelector\<close> branch. \<^verbatim>\<open>parse_nth\<close> belongs to the
  tokenizer library (\<^verbatim>\<open>tinycss2.nth\<close>), so it is a parameter: it answers
  \<open>None\<close> or a pair \<open>(a, b)\<close> of integers.
\<close>

definition compile_functional ::
  "(token list \<Rightarrow> (int \<times> int) option) \<Rightarrow> string \<Rightarrow> token list \<Rightarrow> error + expr" where
  "compile_functional parse_nth name arguments =
     (if name = ''lang'' then
        (let tokens = filter (\<lambda>t. token_type t \<noteq> ''whitespace'') arguments in
         if length tokens = 1 \<and> token_type (hd tokens) = ''ident''
         then (let lang = token_value (hd tokens) in Inr (LangMatch lang (lang @ ''-'')))
         else Inl (SelectorError [''Invalid arguments for :lang()'']))
      else
        (case (if name = ''nth-child'' then Inr ElIndex
               else if name = ''nth-last-child'' then Inr SiblingsAfter
               else if name = ''nth-of-type'' then Inr SameTagBefore
               else if name = ''nth-last-of-type'' then Inr SameTagAfter
               else Inl (SelectorError [''Unknown pseudo-class'', name])) of
           Inl e \<Rightarrow> Inl e
         | Inr count \<Rightarrow>
             (case parse_nth arguments of
                None \<Rightarrow> Inl (SelectorError [''Invalid arguments for :'' @ name @ ''()''])
              | Some (a, b) \<Rightarrow>
                  (let B = b - 1 in
                   if a = 0 then Inr (CountEq count B)
                   else Inr (CountDivmod count B a)))))"

text \<open>
  \<^verbatim>\<open>_compile_node(selector)\<close>. An exception of the source is the \<open>Inl\<close> result;
  \<open>compile_nodes\<close> is \<^verbatim>\<open>map(_compile_node, selector.simple_selectors)\<close> read to
  its end by the list comprehension, which stops at the first exception.
\<close>

fun compile_node :: "(token list \<Rightarrow> (int \<times> int) option) \<Rightarrow> selector \<Rightarrow> error + expr"
  and compile_nodes :: "(token list \<Rightarrow> (int \<times> int) option) \<Rightarrow> selector list \<Rightarrow> error + expr list"
where
  "compile_node parse_nth (CombinedSelector left combinator right) =
     (case compile_node parse_nth left of
        Inl e \<Rightarrow> Inl e
      | Inr left_inside \<Rightarrow>
          if left_inside = Lit0 then Inr Lit0
          else
            (case combinator_left left_inside combinator of
               Inl e \<Rightarrow> Inl e
             | Inr left_test \<Rightarrow>
                 (case compile_node parse_nth right of
                    Inl e \<Rightarrow> Inl e
                  | Inr right_test \<Rightarrow>
                      if right_test = Lit0 then Inr Lit0
                      else if right_test = Lit1 then Inr left_test
                      else Inr (AndE [right_test, left_test]))))"
| "compile_node parse_nth (CompoundSelector simple_selectors) =
     (case compile_nodes parse_nth simple_selectors of
        Inl e \<Rightarrow> Inl e
      | Inr exprs \<Rightarrow> Inr (compound_test exprs))"
| "compile_node parse_nth (NegationSelector simple_selectors) =
     (case compile_nodes parse_nth simple_selectors of
        Inl e \<Rightarrow> Inl e
      | Inr exprs \<Rightarrow> Inr (negate (compound_test exprs)))"
| "compile_node parse_nth (LocalNameSelector name) = Inr (LocalNameEq name)"
| "compile_node parse_nth (NamespaceSelector namespace) = Inr (NamespaceUrlEq namespace)"
| "compile_node parse_nth (ClassSelector class_name) = Inr (InClasses class_name)"
| "compile_node parse_nth (IDSelector ident) = Inr (IdEq ident)"
| "compile_node parse_nth (AttributeSelector namespace name operator value) =
     compile_attribute namespace name operator value"
| "compile_node parse_nth (PseudoClassSelector name) = compile_pseudo_class name"
| "compile_node parse_nth (FunctionalPseudoClassSelector name arguments) =
     compile_functional parse_nth name arguments"
| "compile_node parse_nth OtherNode = Inl TypeError"
| "compile_nodes parse_nth [] = Inr []"
| "compile_nodes parse_nth (s # ss) =
     (case compile_node parse_nth s of
        Inl e \<Rightarrow> Inl e
      | Inr x \<Rightarrow>
          (case compile_nodes parse_nth ss of
             Inl e \<Rightarrow> Inl e
           | Inr xs \<Rightarrow> Inr (x # xs)))"

section \<open>The selector compiler\<close>

text \<open>
  \<^verbatim>\<open>CompiledSelector.__init__\<close>. The object's fields \<^verbatim>\<open>specificity\<close>,
  \<^verbatim>\<open>pseudo_element\<close>, \<^verbatim>\<open>id\<close>, \<^verbatim>\<open>class_name\<close>, \<^verbatim>\<open>local_name\<close> and \<^verbatim>\<open>namespace\<close>
  carry the prefix \<open>cs_\<close> here. \<open>test\<close> is the evaluated
  \<^verbatim>\<open>'lambda el: ' + source\<close>. Reading \<^verbatim>\<open>.simple_selectors\<close> of a node that is not
  a compound selector raises \<^verbatim>\<open>AttributeError\<close>.
\<close>

record compiled_selector =
  never_matches :: bool
  test :: "element \<Rightarrow> bool"
  cs_specificity :: "nat \<times> nat \<times> nat"
  cs_pseudo_element :: "string option"
  cs_id :: "string option"
  cs_class_name :: "string option"
  cs_local_name :: "string option"
  cs_namespace :: "string option"

definition simple_selectors_of :: "selector \<Rightarrow> error + selector list" where
  "simple_selectors_of node =
     (case node of
        CompoundSelector ss \<Rightarrow> Inr ss
      | NegationSelector ss \<Rightarrow> Inr ss
      | _ \<Rightarrow> Inl AttributeError)"

text \<open>One turn of the loop \<^verbatim>\<open>for simple_selector in node.simple_selectors\<close>.\<close>

definition record_hint :: "compiled_selector \<Rightarrow> selector \<Rightarrow> compiled_selector" where
  "record_hint self simple_selector =
     (case simple_selector of
        IDSelector ident \<Rightarrow> self\<lparr>cs_id := Some ident\<rparr>
      | ClassSelector class_name \<Rightarrow> self\<lparr>cs_class_name := Some class_name\<rparr>
      | LocalNameSelector name \<Rightarrow> self\<lparr>cs_local_name := Some name\<rparr>
      | NamespaceSelector namespace \<Rightarrow> self\<lparr>cs_namespace := Some namespace\<rparr>
      | _ \<Rightarrow> self)"

definition CompiledSelector ::
  "(token list \<Rightarrow> (int \<times> int) option) \<Rightarrow> parsed_selector \<Rightarrow> error + compiled_selector" where
  "CompiledSelector parse_nth parsed =
     (case compile_node parse_nth (parsed_tree parsed) of
        Inl e \<Rightarrow> Inl e
      | Inr source \<Rightarrow>
          (let self = \<lparr>never_matches = (source = Lit0),
                       test = eval source,
                       cs_specificity = specificity parsed,
                       cs_pseudo_element = pseudo_element parsed,
                       cs_id = None, cs_class_name = None,
                       cs_local_name = None, cs_namespace = None\<rparr>;
               node = (case parsed_tree parsed of
                         CombinedSelector left combinator right \<Rightarrow> right
                       | other \<Rightarrow> other)
           in case simple_selectors_of node of
                Inl e \<Rightarrow> Inl e
              | Inr simple_selectors \<Rightarrow> Inr (foldl record_hint self simple_selectors)))"

section \<open>What the specification says, and sample data\<close>

text \<open>
  The tree relation a combinator asks for between the subject and an element
  satisfying \<open>P\<close>: some strict ancestor for the descendant combinator, the
  parent for \<^verbatim>\<open>'>'\<close>, the immediately preceding sibling for \<^verbatim>\<open>'+'\<close>, some
  preceding sibling for \<^verbatim>\<open>'~'\<close>.
\<close>

definition combinator_holds :: "string \<Rightarrow> (element \<Rightarrow> bool) \<Rightarrow> element \<Rightarrow> bool" where
  "combinator_holds combinator P el =
     (if combinator = '' '' then list_ex P (iter_ancestors el)
      else if combinator = ''>'' then (case parent el of None \<Rightarrow> False | Some p \<Rightarrow> P p)
      else if combinator = ''+'' then (case previous el of None \<Rightarrow> False | Some p \<Rightarrow> P p)
      else if combinator = ''~'' then list_ex P (iter_previous_siblings el)
      else False)"

text \<open>
  The structural existence check that remains of a combinator whose left-hand
  side is literally true.
\<close>

definition neighbour_exists :: "string \<Rightarrow> element \<Rightarrow> bool" where
  "neighbour_exists combinator el =
     (if combinator = '' '' \<or> combinator = ''>'' then parent el \<noteq> None
      else previous el \<noteq> None)"

text \<open>
  The same check as an expression, and the left-side test of a combinator on a
  left-hand side \<open>l\<close> that is not literal-false: the bare existence check
  when \<open>l\<close> is literally true, the search for an element satisfying \<open>l\<close>
  otherwise.
\<close>

definition existence_check :: "string \<Rightarrow> expr" where
  "existence_check combinator =
     (if combinator = '' '' \<or> combinator = ''>'' then ParentIsNotNone
      else PreviousIsNotNone)"

definition left_existence_test :: "string \<Rightarrow> expr \<Rightarrow> expr" where
  "left_existence_test combinator l =
     (if l = Lit1 then existence_check combinator
      else if combinator = '' '' then AnyAncestors l
      else if combinator = ''>'' then NextParent l
      else if combinator = ''+'' then NextPrevious l
      else AnyPreviousSiblings l)"

text \<open>
  The siblings that a structural counting pseudo-class counts: all preceding
  siblings for \<^verbatim>\<open>nth-child\<close>, all following siblings for \<^verbatim>\<open>nth-last-child\<close>,
  the preceding siblings of the element's tag for \<^verbatim>\<open>nth-of-type\<close>, the following
  ones of its tag for \<^verbatim>\<open>nth-last-of-type\<close>.
\<close>

definition relevant_siblings :: "string \<Rightarrow> element \<Rightarrow> etree list" where
  "relevant_siblings name el =
     (let before = take (index el) (etree_siblings el);
          after = drop (Suc (index el)) (etree_siblings el);
          same_tag = (\<lambda>s. tag s = tag (etree_element el))
      in if name = ''nth-child'' then before
         else if name = ''nth-last-child'' then after
         else if name = ''nth-of-type'' then filter same_tag before
         else filter same_tag after)"

text \<open>
  The value a simple selector offers for each of the four fast-reject hints,
  and the first and the last value offered along a compound.
\<close>

fun id_of :: "selector \<Rightarrow> string option" where
  "id_of (IDSelector ident) = Some ident"
| "id_of other = None"

fun class_of :: "selector \<Rightarrow> string option" where
  "class_of (ClassSelector class_name) = Some class_name"
| "class_of other = None"

fun local_name_of :: "selector \<Rightarrow> string option" where
  "local_name_of (LocalNameSelector name) = Some name"
| "local_name_of other = None"

fun namespace_of :: "selector \<Rightarrow> string option" where
  "namespace_of (NamespaceSelector namespace) = Some namespace"
| "namespace_of other = None"

definition first_offered :: "(selector \<Rightarrow> string option) \<Rightarrow> selector list \<Rightarrow> string option" where
  "first_offered kind ss = (case List.map_filter kind ss of [] \<Rightarrow> None | v # vs \<Rightarrow> Some v)"

definition last_offered :: "(selector \<Rightarrow> string option) \<Rightarrow> selector list \<Rightarrow> string option" where
  "last_offered kind ss = (case rev (List.map_filter kind ss) of [] \<Rightarrow> None | v # vs \<Rightarrow> Some v)"

text \<open>The subject compound: the tree with one combinator layer unwrapped, if present.\<close>

definition subject_of :: "selector \<Rightarrow> selector" where
  "subject_of tree = (case tree of CombinedSelector left combinator right \<Rightarrow> right | other \<Rightarrow> other)"

text \<open>A local name in the XHTML namespace, as a tag.\<close>

definition xhtml :: "string \<Rightarrow> string" where
  "xhtml n = ''{http://www.w3.org/1999/xhtml}'' @ n"

text \<open>
  A sample \<^verbatim>\<open>parse_nth\<close> answering \<^verbatim>\<open>2n+1\<close>, a three-level tree
  \<open>A \<rightarrow> B \<rightarrow> C\<close> in which \<open>C\<close> has a preceding sibling, and sample selectors.
\<close>

definition sample_nth :: "token list \<Rightarrow> (int \<times> int) option" where
  "sample_nth arguments = Some (2, 1)"

definition node :: "string \<Rightarrow> etree" where
  "node t = \<lparr>tag = t, etree_text = None\<rparr>"

definition el_A :: element where
  "el_A = Element (node ''a'') None None 0 [node ''a''] [node ''b''] ''a'' None None {} Map.empty None"

definition el_B :: element where
  "el_B = Element (node ''b'') (Some el_A) None 0 [node ''b''] [node ''c'', node ''c'']
            ''b'' None None {} Map.empty None"

definition el_C0 :: element where
  "el_C0 = Element (node ''c'') (Some el_B) None 0 [node ''c'', node ''c''] []
             ''c'' None None {} Map.empty None"

definition el_C :: element where
  "el_C = Element (node ''c'') (Some el_B) (Some el_C0) 1 [node ''c'', node ''c''] []
            ''c'' None (Some ''x'') {''k''} [''href'' \<mapsto> ''u''] None"

definition el_link :: element where
  "el_link = Element (node (xhtml ''a'')) None None 0 [node (xhtml ''a'')] []
               ''a'' (Some ''http://www.w3.org/1999/xhtml'') None {}
               [''href'' \<mapsto> ''u'', ''disabled'' \<mapsto> ''d''] None"

definition parsed :: "selector \<Rightarrow> parsed_selector" where
  "parsed tree = \<lparr>parsed_tree = tree, specificity = (0, 0, 0), pseudo_element = None\<rparr>"

section \<open>Auxiliary facts\<close>

lemma ancestors_ex: "(\<exists>x. x \<in> set (iter_ancestors el)) = (\<exists>y. parent el = Some y)"
  by (cases el) (auto split: option.splits)

lemma previous_ex: "(\<exists>x. x \<in> set (iter_previous_siblings el)) = (\<exists>y. previous el = Some y)"
  by (cases el) (auto split: option.splits)

text \<open>The left-hand test exists exactly for the four combinators, and which one it is.\<close>

lemma combinator_left_cases:
  assumes "combinator_left l c = Inr lt"
  shows "(c = '' '' \<and> lt = (if l = Lit1 then ParentIsNotNone else AnyAncestors l)) \<or>
         (c = ''>'' \<and> lt = (if l = Lit1 then ParentIsNotNone else NextParent l)) \<or>
         (c = ''+'' \<and> lt = (if l = Lit1 then PreviousIsNotNone else NextPrevious l)) \<or>
         (c = ''~'' \<and> lt = (if l = Lit1 then PreviousIsNotNone else AnyPreviousSiblings l))"
proof -
  consider "c = '' ''" | "c = ''>''" | "c = ''+''" | "c = ''~''"
    | "c \<noteq> '' ''" "c \<noteq> ''>''" "c \<noteq> ''+''" "c \<noteq> ''~''"
    by blast
  then show ?thesis
  proof cases
    case 1 with assms show ?thesis by (cases "l = Lit1") (simp_all add: combinator_left_def)
  next
    case 2 with assms show ?thesis by (cases "l = Lit1") (simp_all add: combinator_left_def)
  next
    case 3 with assms show ?thesis by (cases "l = Lit1") (simp_all add: combinator_left_def)
  next
    case 4 with assms show ?thesis by (cases "l = Lit1") (simp_all add: combinator_left_def)
  next
    case 5 with assms show ?thesis by (cases "l = Lit1") (simp_all add: combinator_left_def)
  qed
qed

lemma combinator_left_known:
  assumes "c \<in> {'' '', ''>'', ''+'', ''~''}"
  shows "\<exists>lt. combinator_left l c = Inr lt"
proof -
  from assms consider "c = '' ''" | "c = ''>''" | "c = ''+''" | "c = ''~''" by blast
  then show ?thesis by cases (simp_all add: combinator_left_def)
qed

lemma combinator_left_test:
  assumes "c \<in> {'' '', ''>'', ''+'', ''~''}"
  shows "combinator_left l c = Inr (left_existence_test c l)"
proof -
  from assms consider "c = '' ''" | "c = ''>''" | "c = ''+''" | "c = ''~''" by blast
  then show ?thesis
    by cases
      (simp_all add: combinator_left_def left_existence_test_def existence_check_def)
qed

lemma existence_check_eval:
  assumes "c \<in> {'' '', ''>'', ''+'', ''~''}"
  shows "eval (existence_check c) el = neighbour_exists c el"
    and "trace (existence_check c) el = [el]"
proof -
  from assms consider "c = '' ''" | "c = ''>''" | "c = ''+''" | "c = ''~''" by blast
  then show "eval (existence_check c) el = neighbour_exists c el"
    by cases (simp_all add: existence_check_def neighbour_exists_def)
  from assms consider "c = '' ''" | "c = ''>''" | "c = ''+''" | "c = ''~''" by blast
  then show "trace (existence_check c) el = [el]"
    by cases (simp_all add: existence_check_def)
qed

text \<open>The left-hand test decides the combinator's tree relation.\<close>

lemma eval_combinator_left:
  assumes "combinator_left l c = Inr lt"
  shows "eval lt el = combinator_holds c (eval l) el"
proof -
  from combinator_left_cases [OF assms]
  consider "c = '' ''" "lt = (if l = Lit1 then ParentIsNotNone else AnyAncestors l)"
    | "c = ''>''" "lt = (if l = Lit1 then ParentIsNotNone else NextParent l)"
    | "c = ''+''" "lt = (if l = Lit1 then PreviousIsNotNone else NextPrevious l)"
    | "c = ''~''" "lt = (if l = Lit1 then PreviousIsNotNone else AnyPreviousSiblings l)"
    by blast
  then show ?thesis
  proof cases
    case 1 then show ?thesis
      by (cases "l = Lit1") (simp_all add: combinator_holds_def ancestors_ex list_ex_iff)
  next
    case 2 then show ?thesis
      by (cases "l = Lit1") (simp_all add: combinator_holds_def split: option.splits)
  next
    case 3 then show ?thesis
      by (cases "l = Lit1") (simp_all add: combinator_holds_def split: option.splits)
  next
    case 4 then show ?thesis
      by (cases "l = Lit1") (simp_all add: combinator_holds_def previous_ex list_ex_iff)
  qed
qed

text \<open>The hint loop leaves the flag and the matcher alone.\<close>

lemma foldl_hint_never: "never_matches (foldl record_hint self ss) = never_matches self"
  by (induction ss arbitrary: self) (simp_all add: record_hint_def split: selector.splits)

lemma foldl_hint_test: "test (foldl record_hint self ss) = test self"
  by (induction ss arbitrary: self) (simp_all add: record_hint_def split: selector.splits)

text \<open>The hint loop keeps, per kind, the value of the last simple selector of the kind.\<close>

lemma map_filter_snoc:
  "List.map_filter f (xs @ [x]) = List.map_filter f xs @ (case f x of None \<Rightarrow> [] | Some v \<Rightarrow> [v])"
  by (simp add: List.map_filter_def split: option.splits)

lemma last_offered_snoc:
  "last_offered f (xs @ [x]) = (case f x of None \<Rightarrow> last_offered f xs | Some v \<Rightarrow> Some v)"
  by (simp add: last_offered_def map_filter_snoc split: option.splits)

lemma last_offered_Nil: "last_offered f [] = None"
  by (simp add: last_offered_def List.map_filter_def)

lemma foldl_hint_fields:
  "cs_id (foldl record_hint self ss) =
     (case last_offered id_of ss of None \<Rightarrow> cs_id self | Some v \<Rightarrow> Some v) \<and>
   cs_class_name (foldl record_hint self ss) =
     (case last_offered class_of ss of None \<Rightarrow> cs_class_name self | Some v \<Rightarrow> Some v) \<and>
   cs_local_name (foldl record_hint self ss) =
     (case last_offered local_name_of ss of None \<Rightarrow> cs_local_name self | Some v \<Rightarrow> Some v) \<and>
   cs_namespace (foldl record_hint self ss) =
     (case last_offered namespace_of ss of None \<Rightarrow> cs_namespace self | Some v \<Rightarrow> Some v)"
proof (induction ss rule: rev_induct)
  case Nil
  show ?case by (simp add: last_offered_Nil)
next
  case (snoc s ss)
  then show ?case
    by (cases s) (simp_all add: last_offered_snoc record_hint_def)
qed

text \<open>An exception in one simple selector is an exception of the whole list.\<close>

lemma compile_nodes_fail:
  "s \<in> set ss \<Longrightarrow> compile_node pn s = Inl e \<Longrightarrow> \<exists>e'. compile_nodes pn ss = Inl e'"
  by (induction ss) (auto split: sum.splits)

text \<open>Python's \<^verbatim>\<open>split\<close> and \<^verbatim>\<open>strip\<close> on an operand that is not one token; tags in the XHTML namespace; the arithmetic of \<^verbatim>\<open>divmod\<close>.\<close>

lemma runs_nonempty_last:
  "cs \<noteq> [] \<Longrightarrow> \<not> sep (last cs) \<Longrightarrow> runs sep cur cs \<noteq> []"
  by (induction cs arbitrary: cur) (auto split: if_splits)

lemma runs_two:
  "cur \<noteq> [] \<Longrightarrow> \<exists>c \<in> set cs. sep c \<Longrightarrow> \<not> sep (last cs) \<Longrightarrow> 2 \<le> length (runs sep cur cs)"
proof (induction cs arbitrary: cur)
  case Nil
  then show ?case by simp
next
  case (Cons c cs)
  show ?case
  proof (cases "sep c")
    case True
    with Cons.prems have "cs \<noteq> []" by auto
    moreover from this Cons.prems have "\<not> sep (last cs)" by simp
    ultimately have "runs sep [] cs \<noteq> []" by (rule runs_nonempty_last)
    then have "1 \<le> length (runs sep [] cs)" by (cases "runs sep [] cs") auto
    with True Cons.prems(1) show ?thesis by simp
  next
    case False
    with Cons.prems have ex: "\<exists>c \<in> set cs. sep c" by auto
    then have "cs \<noteq> []" by auto
    with Cons.prems have "\<not> sep (last cs)" by simp
    with ex have "2 \<le> length (runs sep (cur @ [c]) cs)" by (intro Cons.IH) auto
    with False show ?thesis by simp
  qed
qed

lemma dropWhile_length_id:
  assumes "length (dropWhile P xs) = length xs"
  shows "dropWhile P xs = xs"
proof (cases xs)
  case Nil
  then show ?thesis by simp
next
  case (Cons x ys)
  have "length (dropWhile P ys) \<le> length ys" by (rule length_dropWhile_le)
  with assms Cons show ?thesis by (cases "P x") simp_all
qed

lemma strip_fixed:
  assumes "py_strip v = v" "v \<noteq> []"
  shows "\<not> py_isspace (hd v) \<and> \<not> py_isspace (last v)"
proof -
  let ?d = "dropWhile py_isspace v"
  have len: "length (dropWhile py_isspace (rev ?d)) \<le> length ?d"
    by (metis length_dropWhile_le length_rev)
  have "length v = length (dropWhile py_isspace (rev ?d))"
    using assms(1) unfolding py_strip_def by (metis length_rev)
  with len have "length v \<le> length ?d" by simp
  moreover have "length ?d \<le> length v" by (rule length_dropWhile_le)
  ultimately have d: "?d = v" by (intro dropWhile_length_id) simp
  then have h: "\<not> py_isspace (hd v)" using assms(2) by (metis hd_dropWhile)
  from d assms(1) have "dropWhile py_isspace (rev v) = rev v"
    unfolding py_strip_def by (metis rev_rev_ident)
  then have "\<not> py_isspace (hd (rev v))" using assms(2) by (metis hd_dropWhile rev_is_Nil_conv)
  then have "\<not> py_isspace (last v)" using assms(2) by (simp add: hd_rev)
  with h show ?thesis by simp
qed

lemma css_whitespace_py: "css_whitespace ch \<Longrightarrow> py_isspace ch"
  by (auto simp: css_whitespace_def py_isspace_def)

lemma not_single_token:
  assumes "v = [] \<or> (\<exists>ch \<in> set v. py_isspace ch)"
  shows "length (py_split v) \<noteq> 1 \<or> py_strip v \<noteq> v"
proof (cases "v = []")
  case True
  then show ?thesis by (simp add: py_split_def)
next
  case False
  with assms have ex: "\<exists>ch \<in> set v. py_isspace ch" by simp
  show ?thesis
  proof (rule ccontr)
    assume "\<not> ?thesis"
    then have one: "length (py_split v) = 1" and fx: "py_strip v = v" by simp_all
    from strip_fixed [OF fx False] have h: "\<not> py_isspace (hd v)" and l: "\<not> py_isspace (last v)"
      by simp_all
    from False obtain a cs where v: "v = a # cs" by (cases v) auto
    with h ex have ex': "\<exists>ch \<in> set cs. py_isspace ch" by auto
    then have "cs \<noteq> []" by auto
    with l v have "\<not> py_isspace (last cs)" by simp
    with ex' have "2 \<le> length (runs py_isspace [a] cs)" by (intro runs_two) auto
    with v h have "2 \<le> length (py_split v)" by (simp add: py_split_def)
    with one show False by simp
  qed
qed

lemma eval_html_tag_eq:
  "eval (html_tag_eq names) el = (tag (etree_element el) \<in> xhtml ` set names)"
proof (cases "length names = 1")
  case True
  then obtain n where "names = [n]" by (cases names) auto
  then show ?thesis by (simp add: html_tag_eq_def xhtml_def)
next
  case False
  then show ?thesis by (simp add: html_tag_eq_def xhtml_def image_def)
qed

lemma html_tag_eq_prefix:
  "eval (html_tag_eq names) el \<Longrightarrow> prefix ''{http://www.w3.org/1999/xhtml}'' (tag (etree_element el))"
proof -
  assume "eval (html_tag_eq names) el"
  then obtain n where "tag (etree_element el) = ''{http://www.w3.org/1999/xhtml}'' @ n"
    unfolding eval_html_tag_eq xhtml_def by blast
  then show ?thesis by (rule prefixI)
qed

lemma nth_arith:
  fixes y A :: int
  assumes "A \<noteq> 0"
  shows "(\<exists>n\<ge>0. y = A * n) = (y mod A = 0 \<and> 0 \<le> y div A)"
proof
  assume "\<exists>n\<ge>0. y = A * n"
  then obtain n where "0 \<le> n" "y = A * n" by blast
  with assms show "y mod A = 0 \<and> 0 \<le> y div A" by simp
next
  assume "y mod A = 0 \<and> 0 \<le> y div A"
  then have "y = A * (y div A)" "0 \<le> y div A" by auto
  then show "\<exists>n\<ge>0. y = A * n" by blast
qed

lemma nth_eval:
  "eval (if A = 0 then CountEq C b else CountDivmod C b A) el =
     (\<exists>n\<ge>0. eval_count C el = A * n + b)"
proof (cases "A = 0")
  case True
  then show ?thesis by auto
next
  case False
  have "(\<exists>n\<ge>0. eval_count C el = A * n + b) = (\<exists>n\<ge>0. eval_count C el - b = A * n)"
    by (auto simp: algebra_simps)
  with False nth_arith [OF False, of "eval_count C el - b"] show ?thesis by simp
qed

lemma count_relevant:
  assumes "index el < length (etree_siblings el)"
  shows "eval_count ElIndex el = int (length (relevant_siblings ''nth-child'' el))"
    and "eval_count SiblingsAfter el = int (length (relevant_siblings ''nth-last-child'' el))"
    and "eval_count SameTagBefore el = int (length (relevant_siblings ''nth-of-type'' el))"
    and "eval_count SameTagAfter el = int (length (relevant_siblings ''nth-last-of-type'' el))"
  using assms by (simp_all add: eval_count_def relevant_siblings_def Let_def)

lemma inj_xhtml: "inj xhtml"
  by (simp add: inj_def xhtml_def)

section \<open>Combinators\<close>

text \<open>
  Claim C1. When both sides of a combined selector compile to general
  predicates \<open>l\<close> and \<open>r\<close>, the compiled matcher is the conjunction of \<open>r\<close>
  with the left-hand test, in this order. On an element it is true iff \<open>r\<close>
  matches the element and the combinator's relation holds for \<open>l\<close>: some strict
  ancestor satisfies it (descendant), the parent exists and satisfies it
  (\<^verbatim>\<open>'>'\<close>), the immediately preceding sibling exists and satisfies it (\<^verbatim>\<open>'+'\<close>),
  some preceding sibling satisfies it (\<^verbatim>\<open>'~'\<close>). The evaluation first reads what
  \<open>r\<close> reads, and goes on to the left-hand search only if \<open>r\<close> matched.
\<close>

theorem combined_general_general:
  assumes "compile_node pn left = Inr l" and "compile_node pn right = Inr r"
    and "l \<noteq> Lit0" and "l \<noteq> Lit1" and "r \<noteq> Lit0" and "r \<noteq> Lit1"
    and "c \<in> {'' '', ''>'', ''+'', ''~''}"
  shows "\<exists>lt. compile_node pn (CombinedSelector left c right) = Inr (AndE [r, lt]) \<and>
           (\<forall>el. eval (AndE [r, lt]) el = (eval r el \<and> combinator_holds c (eval l) el)) \<and>
           (\<forall>el. trace (AndE [r, lt]) el = trace r el @ (if eval r el then trace lt el else []))"
proof -
  from assms(7) obtain lt where lt: "combinator_left l c = Inr lt"
    using combinator_left_known by blast
  have "compile_node pn (CombinedSelector left c right) = Inr (AndE [r, lt])"
    using assms(1-6) lt by simp
  moreover have "\<forall>el. eval (AndE [r, lt]) el = (eval r el \<and> combinator_holds c (eval l) el)"
    using eval_combinator_left [OF lt] by simp
  moreover have "\<forall>el. trace (AndE [r, lt]) el = trace r el @ (if eval r el then trace lt el else [])"
    by simp
  ultimately show ?thesis by blast
qed

theorem combined_general_general_witness:
  "\<exists>lt. compile_node sample_nth
          (CombinedSelector (CompoundSelector [LocalNameSelector ''a'']) '' ''
             (CompoundSelector [LocalNameSelector ''c''])) =
        Inr (AndE [LocalNameEq ''c'', lt]) \<and>
        (\<forall>el. eval (AndE [LocalNameEq ''c'', lt]) el =
           (eval (LocalNameEq ''c'') el \<and> combinator_holds '' '' (eval (LocalNameEq ''a'')) el)) \<and>
        (\<forall>el. trace (AndE [LocalNameEq ''c'', lt]) el =
           trace (LocalNameEq ''c'') el @ (if eval (LocalNameEq ''c'') el then trace lt el else []))"
proof -
  have l: "compile_node sample_nth (CompoundSelector [LocalNameSelector ''a'']) = Inr (LocalNameEq ''a'')"
    by (simp add: compound_test_def)
  have r: "compile_node sample_nth (CompoundSelector [LocalNameSelector ''c'']) = Inr (LocalNameEq ''c'')"
    by (simp add: compound_test_def)
  show ?thesis
    by (rule combined_general_general [OF l r]) simp_all
qed

text \<open>
  On the sample tree \<open>A \<rightarrow> B \<rightarrow> C\<close>: \<^verbatim>\<open>a c\<close> matches \<open>C\<close> through its ancestor
  \<open>A\<close>, reading \<open>C\<close> first and then the ancestors nearest first; \<^verbatim>\<open>a > c\<close> does
  not match \<open>C\<close>, whose parent is \<open>B\<close>; \<^verbatim>\<open>a c\<close> on \<open>B\<close> stops at the
  right-hand test.
\<close>

lemma descendant_example:
  "eval (AndE [LocalNameEq ''c'', AnyAncestors (LocalNameEq ''a'')]) el_C"
  "trace (AndE [LocalNameEq ''c'', AnyAncestors (LocalNameEq ''a'')]) el_C = [el_C, el_C, el_B, el_A]"
  "\<not> eval (AndE [LocalNameEq ''c'', NextParent (LocalNameEq ''a'')]) el_C"
  "trace (AndE [LocalNameEq ''c'', AnyAncestors (LocalNameEq ''a'')]) el_B = [el_B]"
  by (simp_all add: el_C_def el_B_def el_A_def)

section \<open>The never-matches flag\<close>

text \<open>
  Claim C2. The flag \<^verbatim>\<open>never_matches\<close> of a compiled selector is true iff the
  expression builder returned the literal-false constant, and then the matcher
  is false on every element.
\<close>

theorem never_matches_iff:
  assumes "CompiledSelector pn p = Inr cs"
  shows "(never_matches cs \<longleftrightarrow> compile_node pn (parsed_tree p) = Inr Lit0) \<and>
         (never_matches cs \<longrightarrow> (\<forall>el. \<not> test cs el))"
  using assms
  by (auto simp: CompiledSelector_def Let_def foldl_hint_never foldl_hint_test split: sum.splits)

theorem never_matches_iff_witness:
  "\<exists>cs. CompiledSelector sample_nth (parsed (CompoundSelector [PseudoClassSelector ''hover''])) = Inr cs \<and>
        never_matches cs \<and> (\<forall>el. \<not> test cs el)"
proof -
  let ?cs = "\<lparr>never_matches = True, test = eval Lit0, cs_specificity = (0, 0, 0),
              cs_pseudo_element = None, cs_id = None, cs_class_name = None,
              cs_local_name = None, cs_namespace = None\<rparr>"
  have cs: "CompiledSelector sample_nth (parsed (CompoundSelector [PseudoClassSelector ''hover''])) = Inr ?cs"
    by (simp add: CompiledSelector_def parsed_def simple_selectors_of_def
          compile_pseudo_class_def compound_test_def record_hint_def)
  from never_matches_iff [OF cs] have "\<forall>el. \<not> test ?cs el" by simp
  with cs show ?thesis by simp
qed

section \<open>Structural counting pseudo-classes\<close>

text \<open>
  Claim C3. For \<^verbatim>\<open>nth-child\<close>, \<^verbatim>\<open>nth-last-child\<close>, \<^verbatim>\<open>nth-of-type\<close> and
  \<^verbatim>\<open>nth-last-of-type\<close> with arguments parsed to \<open>(A, B)\<close>, and an element at a
  position of its sibling list, let \<open>x\<close> be the number of relevant siblings
  (preceding ones, following ones, preceding ones of the same tag, following
  ones of the same tag). The matcher is true iff \<open>x = A * n + (B - 1)\<close> for
  some integer \<open>n \<ge> 0\<close>; for \<open>A = 0\<close> iff \<open>x = B - 1\<close>; for \<open>A \<noteq> 0\<close> iff
  dividing \<open>x - (B - 1)\<close> by \<open>A\<close> leaves remainder zero and a quotient
  \<open>\<ge> 0\<close>.
\<close>

theorem nth_matches:
  assumes "parse_nth args = Some (A, B)"
    and "name \<in> {''nth-child'', ''nth-last-child'', ''nth-of-type'', ''nth-last-of-type''}"
  shows "\<exists>m. compile_node parse_nth (FunctionalPseudoClassSelector name args) = Inr m \<and>
    (\<forall>el. index el < length (etree_siblings el) \<longrightarrow>
       (eval m el \<longleftrightarrow> (\<exists>n\<ge>0. int (length (relevant_siblings name el)) = A * n + (B - 1))) \<and>
       (A = 0 \<longrightarrow> (eval m el \<longleftrightarrow> int (length (relevant_siblings name el)) = B - 1)) \<and>
       (A \<noteq> 0 \<longrightarrow> (eval m el \<longleftrightarrow>
          (int (length (relevant_siblings name el)) - (B - 1)) mod A = 0 \<and>
          0 \<le> (int (length (relevant_siblings name el)) - (B - 1)) div A)))"
proof -
  let ?m = "\<lambda>C. if A = 0 then CountEq C (B - 1) else CountDivmod C (B - 1) A"
  from assms(2) consider "name = ''nth-child''" | "name = ''nth-last-child''"
    | "name = ''nth-of-type''" | "name = ''nth-last-of-type''" by blast
  then obtain C where
    m: "compile_node parse_nth (FunctionalPseudoClassSelector name args) = Inr (?m C)" and
    c: "\<And>el. index el < length (etree_siblings el) \<Longrightarrow>
          eval_count C el = int (length (relevant_siblings name el))"
  proof cases
    case 1
    with assms(1) have "compile_node parse_nth (FunctionalPseudoClassSelector name args) = Inr (?m ElIndex)"
      by (simp add: compile_functional_def)
    with 1 show ?thesis using count_relevant(1) that by blast
  next
    case 2
    with assms(1) have "compile_node parse_nth (FunctionalPseudoClassSelector name args) = Inr (?m SiblingsAfter)"
      by (simp add: compile_functional_def)
    with 2 show ?thesis using count_relevant(2) that by blast
  next
    case 3
    with assms(1) have "compile_node parse_nth (FunctionalPseudoClassSelector name args) = Inr (?m SameTagBefore)"
      by (simp add: compile_functional_def)
    with 3 show ?thesis using count_relevant(3) that by blast
  next
    case 4
    with assms(1) have "compile_node parse_nth (FunctionalPseudoClassSelector name args) = Inr (?m SameTagAfter)"
      by (simp add: compile_functional_def)
    with 4 show ?thesis using count_relevant(4) that by blast
  qed
  have "(eval (?m C) el \<longleftrightarrow> (\<exists>n\<ge>0. int (length (relevant_siblings name el)) = A * n + (B - 1))) \<and>
       (A = 0 \<longrightarrow> (eval (?m C) el \<longleftrightarrow> int (length (relevant_siblings name el)) = B - 1)) \<and>
       (A \<noteq> 0 \<longrightarrow> (eval (?m C) el \<longleftrightarrow>
          (int (length (relevant_siblings name el)) - (B - 1)) mod A = 0 \<and>
          0 \<le> (int (length (relevant_siblings name el)) - (B - 1)) div A))"
    if "index el < length (etree_siblings el)" for el
    using nth_eval [of A C "B - 1" el] c [OF that] by auto
  with m show ?thesis by blast
qed

theorem nth_matches_witness:
  "\<exists>m. compile_node sample_nth (FunctionalPseudoClassSelector ''nth-child'' []) = Inr m \<and>
    (\<forall>el. index el < length (etree_siblings el) \<longrightarrow>
       (eval m el \<longleftrightarrow> (\<exists>n\<ge>0. int (length (relevant_siblings ''nth-child'' el)) = 2 * n + (1 - 1))) \<and>
       ((2::int) = 0 \<longrightarrow> (eval m el \<longleftrightarrow> int (length (relevant_siblings ''nth-child'' el)) = 1 - 1)) \<and>
       ((2::int) \<noteq> 0 \<longrightarrow> (eval m el \<longleftrightarrow>
          (int (length (relevant_siblings ''nth-child'' el)) - (1 - 1)) mod 2 = 0 \<and>
          0 \<le> (int (length (relevant_siblings ''nth-child'' el)) - (1 - 1)) div 2)))"
proof -
  have p: "sample_nth [] = Some (2, 1)" by (simp add: sample_nth_def)
  have n: "''nth-child'' \<in> {''nth-child'', ''nth-last-child'', ''nth-of-type'', ''nth-last-of-type''}"
    by simp
  show ?thesis
    by (rule nth_matches [where parse_nth = sample_nth and args = "[]" and A = 2 and B = 1
          and name = "''nth-child''", OF p n])
qed

text \<open>
  \<^verbatim>\<open>:nth-child(2n+1)\<close> on the sample tree: the child at index 0 matches, the
  child at index 1 does not.
\<close>

lemma nth_child_example:
  "compile_node sample_nth (FunctionalPseudoClassSelector ''nth-child'' []) =
     Inr (CountDivmod ElIndex 0 2)"
  "eval (CountDivmod ElIndex 0 2) el_C0"
  "\<not> eval (CountDivmod ElIndex 0 2) el_C"
  by (simp_all add: compile_functional_def sample_nth_def eval_count_def el_C_def el_C0_def)

section \<open>The three-state simplification of a combined selector\<close>

text \<open>
  Claim C4. If the left side compiles to literal-false, the combined selector
  compiles to literal-false. If the left side compiles to literal-true, the
  compiled text is the structural existence check (a parent exists, for the
  descendant combinator and \<^verbatim>\<open>'>'\<close>; a previous sibling exists, for \<^verbatim>\<open>'+'\<close> and
  \<^verbatim>\<open>'~'\<close>) conjoined with the right side: literal-false when the right side is,
  the bare check when the right side is literally true, and the right side
  followed by the check otherwise; the check reads the element alone. If the
  right side compiles to literal-false, the combined selector compiles to
  literal-false. If the right side compiles to literal-true, the compiled text
  is the left-side test alone, with no conjunction around it. The last three
  are stated for the four combinators and two sides that compile.
\<close>

theorem three_state_simplification:
  "(compile_node pn left = Inr Lit0 \<longrightarrow>
      compile_node pn (CombinedSelector left c right) = Inr Lit0) \<and>
   (compile_node pn left = Inr Lit1 \<and> compile_node pn right = Inr r \<and>
    c \<in> {'' '', ''>'', ''+'', ''~''} \<longrightarrow>
      compile_node pn (CombinedSelector left c right) =
        Inr (if r = Lit0 then Lit0
             else if r = Lit1 then existence_check c
             else AndE [r, existence_check c]) \<and>
      (\<forall>el. eval (existence_check c) el = neighbour_exists c el \<and>
            trace (existence_check c) el = [el]) \<and>
      (\<exists>m. compile_node pn (CombinedSelector left c right) = Inr m \<and>
           (\<forall>el. eval m el = (neighbour_exists c el \<and> eval r el)))) \<and>
   (compile_node pn left = Inr l \<and> compile_node pn right = Inr Lit0 \<and>
    c \<in> {'' '', ''>'', ''+'', ''~''} \<longrightarrow>
      compile_node pn (CombinedSelector left c right) = Inr Lit0) \<and>
   (compile_node pn left = Inr l \<and> compile_node pn right = Inr Lit1 \<and>
    c \<in> {'' '', ''>'', ''+'', ''~''} \<longrightarrow>
      compile_node pn (CombinedSelector left c right) =
        Inr (if l = Lit0 then Lit0 else left_existence_test c l) \<and>
      (\<exists>m. compile_node pn (CombinedSelector left c right) = Inr m \<and>
           (\<forall>el. eval m el = combinator_holds c (eval l) el)))"
proof (intro conjI impI)
  assume "compile_node pn left = Inr Lit0"
  then show "compile_node pn (CombinedSelector left c right) = Inr Lit0" by simp
next
  assume a: "compile_node pn left = Inr Lit1 \<and> compile_node pn right = Inr r \<and>
    c \<in> {'' '', ''>'', ''+'', ''~''}"
  then have k: "c \<in> {'' '', ''>'', ''+'', ''~''}" by simp
  have lt: "combinator_left Lit1 c = Inr (existence_check c)"
    using combinator_left_test [OF k, of Lit1] by (simp add: left_existence_test_def)
  from a lt show res: "compile_node pn (CombinedSelector left c right) =
      Inr (if r = Lit0 then Lit0
           else if r = Lit1 then existence_check c
           else AndE [r, existence_check c])"
    by simp
  show "\<forall>el. eval (existence_check c) el = neighbour_exists c el \<and>
            trace (existence_check c) el = [el]"
    using existence_check_eval [OF k] by simp
  have "eval (if r = Lit0 then Lit0
           else if r = Lit1 then existence_check c
           else AndE [r, existence_check c]) el =
      (neighbour_exists c el \<and> eval r el)" for el
    using existence_check_eval(1) [OF k, of el] by auto
  with res show "\<exists>m. compile_node pn (CombinedSelector left c right) = Inr m \<and>
           (\<forall>el. eval m el = (neighbour_exists c el \<and> eval r el))"
    by blast
next
  assume a: "compile_node pn left = Inr l \<and> compile_node pn right = Inr Lit0 \<and>
    c \<in> {'' '', ''>'', ''+'', ''~''}"
  then have "combinator_left l c = Inr (left_existence_test c l)"
    using combinator_left_test by simp
  with a show "compile_node pn (CombinedSelector left c right) = Inr Lit0" by simp
next
  assume a: "compile_node pn left = Inr l \<and> compile_node pn right = Inr Lit1 \<and>
    c \<in> {'' '', ''>'', ''+'', ''~''}"
  then have lt: "combinator_left l c = Inr (left_existence_test c l)"
    using combinator_left_test by simp
  have nh: "\<not> combinator_holds c (eval Lit0) el" for el
    using a by (auto simp: combinator_holds_def list_ex_iff split: option.splits)
  from a lt show res: "compile_node pn (CombinedSelector left c right) =
      Inr (if l = Lit0 then Lit0 else left_existence_test c l)"
    by simp
  have "eval (if l = Lit0 then Lit0 else left_existence_test c l) el =
      combinator_holds c (eval l) el" for el
    using eval_combinator_left [OF lt, of el] nh [of el] by auto
  with res show "\<exists>m. compile_node pn (CombinedSelector left c right) = Inr m \<and>
           (\<forall>el. eval m el = combinator_holds c (eval l) el)"
    by blast
qed

text \<open>
  The four rows at selectors with a general side beside a literal one:
  \<^verbatim>\<open>:hover > c\<close>, \<^verbatim>\<open>* c\<close>, \<^verbatim>\<open>a + :hover\<close> and \<^verbatim>\<open>a ~ *\<close>.
\<close>

theorem three_state_simplification_witness:
  "compile_node sample_nth
     (CombinedSelector (CompoundSelector [PseudoClassSelector ''hover'']) ''>''
        (CompoundSelector [LocalNameSelector ''c''])) = Inr Lit0 \<and>
   compile_node sample_nth
     (CombinedSelector (CompoundSelector []) '' ''
        (CompoundSelector [LocalNameSelector ''c''])) =
     Inr (AndE [LocalNameEq ''c'', ParentIsNotNone]) \<and>
   compile_node sample_nth
     (CombinedSelector (CompoundSelector [LocalNameSelector ''a'']) ''+''
        (CompoundSelector [PseudoClassSelector ''hover''])) = Inr Lit0 \<and>
   compile_node sample_nth
     (CombinedSelector (CompoundSelector [LocalNameSelector ''a'']) ''~''
        (CompoundSelector [])) =
     Inr (AnyPreviousSiblings (LocalNameEq ''a''))"
proof -
  have h: "compile_node sample_nth (CompoundSelector [PseudoClassSelector ''hover'']) = Inr Lit0"
    by (simp add: compile_pseudo_class_def compound_test_def)
  have e: "compile_node sample_nth (CompoundSelector []) = Inr Lit1"
    by (simp add: compound_test_def)
  have a: "compile_node sample_nth (CompoundSelector [LocalNameSelector ''a'']) =
      Inr (LocalNameEq ''a'')"
    by (simp add: compound_test_def)
  have g: "compile_node sample_nth (CompoundSelector [LocalNameSelector ''c'']) =
      Inr (LocalNameEq ''c'')"
    by (simp add: compound_test_def)
  have k: "'' '' \<in> {'' '', ''>'', ''+'', ''~''}" "''+'' \<in> {'' '', ''>'', ''+'', ''~''}"
    "''~'' \<in> {'' '', ''>'', ''+'', ''~''}"
    by simp_all
  note row1 =
    three_state_simplification [where pn = sample_nth and c = "''>''"
      and left = "CompoundSelector [PseudoClassSelector ''hover'']"
      and right = "CompoundSelector [LocalNameSelector ''c'']", THEN conjunct1, THEN mp, OF h]
  note row2 =
    three_state_simplification [where pn = sample_nth and c = "'' ''" and r = "LocalNameEq ''c''"
      and left = "CompoundSelector []"
      and right = "CompoundSelector [LocalNameSelector ''c'']",
      THEN conjunct2, THEN conjunct1, THEN mp, OF conjI [OF e conjI [OF g k(1)]],
      THEN conjunct1]
  note row3 =
    three_state_simplification [where pn = sample_nth and c = "''+''" and l = "LocalNameEq ''a''"
      and left = "CompoundSelector [LocalNameSelector ''a'']"
      and right = "CompoundSelector [PseudoClassSelector ''hover'']",
      THEN conjunct2, THEN conjunct2, THEN conjunct1, THEN mp, OF conjI [OF a conjI [OF h k(2)]]]
  note row4 =
    three_state_simplification [where pn = sample_nth and c = "''~''" and l = "LocalNameEq ''a''"
      and left = "CompoundSelector [LocalNameSelector ''a'']"
      and right = "CompoundSelector []",
      THEN conjunct2, THEN conjunct2, THEN conjunct2, THEN mp, OF conjI [OF a conjI [OF e k(3)]],
      THEN conjunct1]
  from row2 have 2: "compile_node sample_nth
     (CombinedSelector (CompoundSelector []) '' ''
        (CompoundSelector [LocalNameSelector ''c''])) =
     Inr (AndE [LocalNameEq ''c'', ParentIsNotNone])"
    by (simp add: existence_check_def)
  from row4 have 4: "compile_node sample_nth
     (CombinedSelector (CompoundSelector [LocalNameSelector ''a'']) ''~''
        (CompoundSelector [])) =
     Inr (AnyPreviousSiblings (LocalNameEq ''a''))"
    by (simp add: left_existence_test_def)
  from row1 2 row3 4 show ?thesis by (intro conjI)
qed

section \<open>Fast-reject hints\<close>

text \<open>
  Claim C5, as amended. The hints \<^verbatim>\<open>id\<close>, \<^verbatim>\<open>class_name\<close>, \<^verbatim>\<open>local_name\<close> and
  \<^verbatim>\<open>namespace\<close> of a compiled selector are taken only from the direct simple
  selectors of the subject compound (the tree with one combinator layer
  unwrapped, if present); for each of the four kinds the recorded value is that
  of the last simple selector of that kind in the compound, and \<open>None\<close> if
  there is none.
\<close>

theorem hints_last_offered:
  assumes "CompiledSelector pn p = Inr cs"
  shows "\<exists>ss. simple_selectors_of (subject_of (parsed_tree p)) = Inr ss \<and>
           cs_id cs = last_offered id_of ss \<and>
           cs_class_name cs = last_offered class_of ss \<and>
           cs_local_name cs = last_offered local_name_of ss \<and>
           cs_namespace cs = last_offered namespace_of ss"
proof -
  let ?self = "\<lambda>source. \<lparr>never_matches = (source = Lit0), test = eval source,
      cs_specificity = specificity p, cs_pseudo_element = pseudo_element p,
      cs_id = None, cs_class_name = None, cs_local_name = None, cs_namespace = None\<rparr>"
  from assms obtain source ss where
    ss: "simple_selectors_of (subject_of (parsed_tree p)) = Inr ss" and
    cs: "cs = foldl record_hint (?self source) ss"
    by (auto simp: CompiledSelector_def Let_def subject_of_def split: sum.splits)
  from foldl_hint_fields [of "?self source" ss] cs
  have "cs_id cs = last_offered id_of ss \<and>
        cs_class_name cs = last_offered class_of ss \<and>
        cs_local_name cs = last_offered local_name_of ss \<and>
        cs_namespace cs = last_offered namespace_of ss"
    by (simp split: option.splits)
  with ss show ?thesis by blast
qed

theorem hints_last_offered_witness:
  "\<exists>ss. simple_selectors_of (subject_of (parsed_tree (parsed (CompoundSelector
           [LocalNameSelector ''div'', ClassSelector ''foo'', IDSelector ''bar''])))) = Inr ss \<and>
        Some ''bar'' = last_offered id_of ss \<and>
        Some ''foo'' = last_offered class_of ss \<and>
        Some ''div'' = last_offered local_name_of ss \<and>
        None = last_offered namespace_of ss"
proof -
  let ?cs = "\<lparr>never_matches = False,
              test = eval (AndE [LocalNameEq ''div'', InClasses ''foo'', IdEq ''bar'']),
              cs_specificity = (0, 0, 0), cs_pseudo_element = None,
              cs_id = Some ''bar'', cs_class_name = Some ''foo'',
              cs_local_name = Some ''div'', cs_namespace = None\<rparr>"
  have cs: "CompiledSelector sample_nth (parsed (CompoundSelector
           [LocalNameSelector ''div'', ClassSelector ''foo'', IDSelector ''bar''])) = Inr ?cs"
    by (simp add: CompiledSelector_def parsed_def simple_selectors_of_def
          compound_test_def record_hint_def)
  from hints_last_offered [OF cs] show ?thesis by simp
qed

text \<open>
  Claim C5 as stated fails: in \<^verbatim>\<open>.foo.bar\<close> the first class selector offers
  \<^verbatim>\<open>foo\<close>, and the compiled selector records \<^verbatim>\<open>bar\<close>.
\<close>

theorem hints_first_counterexample:
  "map_sum id cs_class_name
     (CompiledSelector sample_nth
        (parsed (CompoundSelector [ClassSelector ''foo'', ClassSelector ''bar''])))
     = Inr (Some ''bar'') \<and>
   first_offered class_of [ClassSelector ''foo'', ClassSelector ''bar''] = Some ''foo''"
  by (simp add: CompiledSelector_def parsed_def simple_selectors_of_def compound_test_def
        record_hint_def first_offered_def List.map_filter_def)

section \<open>Attribute selectors\<close>

text \<open>
  Claim C6. Compiling an attribute selector whose namespace is \<open>None\<close> raises
  \<^verbatim>\<open>NotImplementedError\<close>, whatever its name, operator and value; a compound
  selector that holds one does not compile, and no compiled selector (hence no
  matcher) is produced for it.
\<close>

theorem any_namespace_attribute_fails:
  "compile_node pn (AttributeSelector None name operator v) = Inl NotImplementedError \<and>
   (AttributeSelector None name operator v \<in> set ss \<longrightarrow>
      (\<exists>e. compile_node pn (CompoundSelector ss) = Inl e) \<and>
      (\<forall>sp pe cs. CompiledSelector pn \<lparr>parsed_tree = CompoundSelector ss, specificity = sp,
                     pseudo_element = pe\<rparr> \<noteq> Inr cs))"
proof -
  have a: "compile_node pn (AttributeSelector None name operator v) = Inl NotImplementedError"
    by (simp add: compile_attribute_def)
  {
    assume "AttributeSelector None name operator v \<in> set ss"
    from compile_nodes_fail [OF this a] obtain e where "compile_nodes pn ss = Inl e" by blast
    then have c: "compile_node pn (CompoundSelector ss) = Inl e" by simp
    then have "(\<exists>e. compile_node pn (CompoundSelector ss) = Inl e) \<and>
      (\<forall>sp pe cs. CompiledSelector pn \<lparr>parsed_tree = CompoundSelector ss, specificity = sp,
                     pseudo_element = pe\<rparr> \<noteq> Inr cs)"
      by (simp add: CompiledSelector_def)
  }
  with a show ?thesis by blast
qed

theorem any_namespace_attribute_fails_witness:
  "compile_node sample_nth (AttributeSelector None ''title'' (Some ''='') ''x'') =
     Inl NotImplementedError \<and>
   (\<exists>e. compile_node sample_nth
          (CompoundSelector [LocalNameSelector ''a'',
             AttributeSelector None ''title'' (Some ''='') ''x'']) = Inl e) \<and>
   (\<forall>sp pe cs. CompiledSelector sample_nth
        \<lparr>parsed_tree = CompoundSelector [LocalNameSelector ''a'',
             AttributeSelector None ''title'' (Some ''='') ''x''],
         specificity = sp, pseudo_element = pe\<rparr> \<noteq> Inr cs)"
  using any_namespace_attribute_fails [where pn = sample_nth and name = "''title''"
      and operator = "Some ''=''" and v = "''x''"
      and ss = "[LocalNameSelector ''a'', AttributeSelector None ''title'' (Some ''='') ''x'']"]
  by simp

text \<open>
  Claim C7. An attribute selector (in a given namespace) with operator
  \<^verbatim>\<open>~=\<close> whose operand is not a single non-whitespace token (it is empty or
  holds a whitespace character) compiles to literal-false; so does one with
  operator \<^verbatim>\<open>^=\<close>, \<^verbatim>\<open>$=\<close> or \<^verbatim>\<open>*=\<close> and the empty operand. The matcher of
  literal-false is false on every element.
\<close>

theorem attribute_operand_never_matches:
  "(v = [] \<or> (\<exists>ch \<in> set v. css_whitespace ch \<or> py_isspace ch) \<longrightarrow>
      compile_node pn (AttributeSelector (Some ns) name (Some ''~='') v) = Inr Lit0) \<and>
   (op \<in> {''^='', ''$='', ''*=''} \<longrightarrow>
      compile_node pn (AttributeSelector (Some ns) name (Some op) []) = Inr Lit0) \<and>
   (\<forall>el. \<not> eval Lit0 el)"
proof (intro conjI impI)
  assume "v = [] \<or> (\<exists>ch \<in> set v. css_whitespace ch \<or> py_isspace ch)"
  then have "v = [] \<or> (\<exists>ch \<in> set v. py_isspace ch)"
    using css_whitespace_py by blast
  from not_single_token [OF this]
  show "compile_node pn (AttributeSelector (Some ns) name (Some ''~='') v) = Inr Lit0"
    by (simp add: compile_attribute_def Let_def)
next
  assume "op \<in> {''^='', ''$='', ''*=''}"
  then consider "op = ''^=''" | "op = ''$=''" | "op = ''*=''" by blast
  then show "compile_node pn (AttributeSelector (Some ns) name (Some op) []) = Inr Lit0"
    by cases (simp_all add: compile_attribute_def Let_def)
next
  show "\<forall>el. \<not> eval Lit0 el" by simp
qed

theorem attribute_operand_never_matches_witness:
  "compile_node sample_nth (AttributeSelector (Some []) ''class'' (Some ''~='') ''foo bar'') = Inr Lit0 \<and>
   compile_node sample_nth (AttributeSelector (Some []) ''class'' (Some ''^='') []) = Inr Lit0 \<and>
   (\<forall>el. \<not> eval Lit0 el)"
proof -
  have "css_whitespace (CHR '' '')" by (simp add: css_whitespace_def)
  then have v: "''foo bar'' = [] \<or> (\<exists>ch \<in> set ''foo bar''. css_whitespace ch \<or> py_isspace ch)"
    by simp
  have o: "''^='' \<in> {''^='', ''$='', ''*=''}" by simp
  from attribute_operand_never_matches [where v = "''foo bar''" and op = "''^=''"
      and pn = sample_nth and ns = "[]" and name = "''class''"] v o
  show ?thesis by blast
qed

section \<open>Pseudo-classes\<close>

text \<open>
  Claim C8. \<^verbatim>\<open>:visited\<close>, \<^verbatim>\<open>:hover\<close>, \<^verbatim>\<open>:active\<close>, \<^verbatim>\<open>:focus\<close> and \<^verbatim>\<open>:target\<close>
  compile to literal-false: on every element the matcher is false, and its
  evaluation reads nothing of the element or the document.
\<close>

theorem interactive_pseudo_classes_never_match:
  assumes "name \<in> {''visited'', ''hover'', ''active'', ''focus'', ''target''}"
  shows "compile_node pn (PseudoClassSelector name) = Inr Lit0 \<and>
         (\<forall>el. \<not> eval Lit0 el \<and> trace Lit0 el = [])"
proof -
  from assms consider "name = ''visited''" | "name = ''hover''" | "name = ''active''"
    | "name = ''focus''" | "name = ''target''" by blast
  then have "compile_node pn (PseudoClassSelector name) = Inr Lit0"
    by cases (simp_all add: compile_pseudo_class_def)
  then show ?thesis by simp
qed

theorem interactive_pseudo_classes_never_match_witness:
  "compile_node sample_nth (PseudoClassSelector ''hover'') = Inr Lit0 \<and>
   (\<forall>el. \<not> eval Lit0 el \<and> trace Lit0 el = [])"
proof -
  have n: "''hover'' \<in> {''visited'', ''hover'', ''active'', ''focus'', ''target''}" by simp
  show ?thesis by (rule interactive_pseudo_classes_never_match [OF n])
qed

text \<open>
  Claim C9. \<^verbatim>\<open>:link\<close>, \<^verbatim>\<open>:enabled\<close>, \<^verbatim>\<open>:disabled\<close> and \<^verbatim>\<open>:checked\<close> can only
  match an element whose tag starts with the XHTML namespace
  \<^verbatim>\<open>{http://www.w3.org/1999/xhtml}\<close>.
\<close>

theorem tag_restricted_need_xhtml:
  assumes "name \<in> {''link'', ''enabled'', ''disabled'', ''checked''}"
  shows "\<exists>m. compile_node pn (PseudoClassSelector name) = Inr m \<and>
           (\<forall>el. eval m el \<longrightarrow> prefix ''{http://www.w3.org/1999/xhtml}'' (tag (etree_element el)))"
proof -
  from assms consider "name = ''link''" | "name = ''enabled''" | "name = ''disabled''"
    | "name = ''checked''" by blast
  then show ?thesis
  proof cases
    case 1
    then have "compile_node pn (PseudoClassSelector name) =
        Inr (AndE [html_tag_eq [''a'', ''area'', ''link''], GetAttrIsNotNone ''href''])"
      by (simp add: compile_pseudo_class_def)
    moreover have "eval (AndE [html_tag_eq [''a'', ''area'', ''link''], GetAttrIsNotNone ''href'']) el
        \<longrightarrow> prefix ''{http://www.w3.org/1999/xhtml}'' (tag (etree_element el))" for el
      by (auto dest: html_tag_eq_prefix simp del: prefix_code)
    ultimately show ?thesis by blast
  next
    case 2
    then have "compile_node pn (PseudoClassSelector name) =
        Inr (OrE
          (AndE [html_tag_eq [''button'', ''input'', ''select'', ''textarea'',
                              ''option'', ''optgroup'', ''menuitem'', ''fieldset''],
                 GetAttrIsNone ''disabled''])
          (AndE [html_tag_eq [''a'', ''area'', ''link''], GetAttrIsNotNone ''href'']))"
      by (simp add: compile_pseudo_class_def)
    moreover have "eval (OrE
          (AndE [html_tag_eq [''button'', ''input'', ''select'', ''textarea'',
                              ''option'', ''optgroup'', ''menuitem'', ''fieldset''],
                 GetAttrIsNone ''disabled''])
          (AndE [html_tag_eq [''a'', ''area'', ''link''], GetAttrIsNotNone ''href''])) el
        \<longrightarrow> prefix ''{http://www.w3.org/1999/xhtml}'' (tag (etree_element el))" for el
      by (auto dest: html_tag_eq_prefix simp del: prefix_code)
    ultimately show ?thesis by blast
  next
    case 3
    then have "compile_node pn (PseudoClassSelector name) =
        Inr (AndE [html_tag_eq [''button'', ''input'', ''select'', ''textarea'',
                                ''option'', ''optgroup'', ''menuitem'', ''fieldset''],
                   GetAttrIsNotNone ''disabled''])"
      by (simp add: compile_pseudo_class_def)
    moreover have "eval (AndE [html_tag_eq [''button'', ''input'', ''select'', ''textarea'',
                                ''option'', ''optgroup'', ''menuitem'', ''fieldset''],
                   GetAttrIsNotNone ''disabled'']) el
        \<longrightarrow> prefix ''{http://www.w3.org/1999/xhtml}'' (tag (etree_element el))" for el
      by (auto dest: html_tag_eq_prefix simp del: prefix_code)
    ultimately show ?thesis by blast
  next
    case 4
    then have "compile_node pn (PseudoClassSelector name) =
        Inr (OrE
          (AndE [html_tag_eq [''input'', ''menuitem''], GetAttrIsNotNone ''checked''])
          (AndE [html_tag_eq [''option''], GetAttrIsNotNone ''selected'']))"
      by (simp add: compile_pseudo_class_def)
    moreover have "eval (OrE
          (AndE [html_tag_eq [''input'', ''menuitem''], GetAttrIsNotNone ''checked''])
          (AndE [html_tag_eq [''option''], GetAttrIsNotNone ''selected''])) el
        \<longrightarrow> prefix ''{http://www.w3.org/1999/xhtml}'' (tag (etree_element el))" for el
      by (auto dest: html_tag_eq_prefix simp del: prefix_code)
    ultimately show ?thesis by blast
  qed
qed

theorem tag_restricted_need_xhtml_witness:
  "\<exists>m. compile_node sample_nth (PseudoClassSelector ''link'') = Inr m \<and>
        (\<forall>el. eval m el \<longrightarrow> prefix ''{http://www.w3.org/1999/xhtml}'' (tag (etree_element el)))"
proof -
  have n: "''link'' \<in> {''link'', ''enabled'', ''disabled'', ''checked''}" by simp
  show ?thesis by (rule tag_restricted_need_xhtml [OF n])
qed

text \<open>An element \<^verbatim>\<open>c\<close> without namespace that has an \<^verbatim>\<open>href\<close> is not a \<^verbatim>\<open>:link\<close>.\<close>

lemma link_example:
  "compile_node sample_nth (PseudoClassSelector ''link'') =
     Inr (AndE [html_tag_eq [''a'', ''area'', ''link''], GetAttrIsNotNone ''href''])"
  "get_attr el_C ''href'' = Some ''u''"
  "\<not> eval (AndE [html_tag_eq [''a'', ''area'', ''link''], GetAttrIsNotNone ''href'']) el_C"
  by (simp_all add: compile_pseudo_class_def html_tag_eq_def get_attr_def el_C_def node_def)

text \<open>
  Claim C10. On an element whose tag is an XHTML \<^verbatim>\<open>a\<close>, \<^verbatim>\<open>area\<close> or \<^verbatim>\<open>link\<close>,
  \<^verbatim>\<open>:enabled\<close> matches iff the element has an \<^verbatim>\<open>href\<close> attribute, whatever its
  \<^verbatim>\<open>disabled\<close> attribute; on an element whose tag is one of the XHTML form
  controls it matches iff the element has no \<^verbatim>\<open>disabled\<close> attribute.
\<close>

theorem enabled_on_links:
  "\<exists>m. compile_node pn (PseudoClassSelector ''enabled'') = Inr m \<and>
     (\<forall>el. (tag (etree_element el) \<in> xhtml ` {''a'', ''area'', ''link''} \<longrightarrow>
              eval m el = (get_attr el ''href'' \<noteq> None)) \<and>
           (tag (etree_element el) \<in> xhtml ` {''button'', ''input'', ''select'', ''textarea'',
                ''option'', ''optgroup'', ''menuitem'', ''fieldset''} \<longrightarrow>
              eval m el = (get_attr el ''disabled'' = None)))"
proof -
  define L where "L = [''a'', ''area'', ''link'']"
  define F where "F = [''button'', ''input'', ''select'', ''textarea'',
                       ''option'', ''optgroup'', ''menuitem'', ''fieldset'']"
  let ?m = "OrE (AndE [html_tag_eq F, GetAttrIsNone ''disabled''])
                (AndE [html_tag_eq L, GetAttrIsNotNone ''href''])"
  have m: "compile_node pn (PseudoClassSelector ''enabled'') = Inr ?m"
    by (simp add: compile_pseudo_class_def L_def F_def)
  have ev: "eval ?m el =
      ((tag (etree_element el) \<in> xhtml ` set F \<and> get_attr el ''disabled'' = None) \<or>
       (tag (etree_element el) \<in> xhtml ` set L \<and> get_attr el ''href'' \<noteq> None))" for el
    by (simp add: eval_html_tag_eq)
  have "set L \<inter> set F = {}" by (simp add: L_def F_def)
  then have disj: "xhtml ` set L \<inter> xhtml ` set F = {}"
    by (simp add: image_Int [OF inj_xhtml, symmetric])
  have sets: "set L = {''a'', ''area'', ''link''}"
    "set F = {''button'', ''input'', ''select'', ''textarea'',
                ''option'', ''optgroup'', ''menuitem'', ''fieldset''}"
    by (simp_all add: L_def F_def)
  have "(tag (etree_element el) \<in> xhtml ` set L \<longrightarrow>
              eval ?m el = (get_attr el ''href'' \<noteq> None)) \<and>
        (tag (etree_element el) \<in> xhtml ` set F \<longrightarrow>
              eval ?m el = (get_attr el ''disabled'' = None))" for el
    unfolding ev using disj by blast
  then show ?thesis using m unfolding sets by blast
qed

theorem enabled_on_links_witness:
  "\<exists>m. compile_node sample_nth (PseudoClassSelector ''enabled'') = Inr m \<and>
        get_attr el_link ''disabled'' \<noteq> None \<and> eval m el_link"
proof -
  from enabled_on_links [of sample_nth] obtain m where
    mh: "compile_node sample_nth (PseudoClassSelector ''enabled'') = Inr m \<and>
     (\<forall>el. (tag (etree_element el) \<in> xhtml ` {''a'', ''area'', ''link''} \<longrightarrow>
              eval m el = (get_attr el ''href'' \<noteq> None)) \<and>
           (tag (etree_element el) \<in> xhtml ` {''button'', ''input'', ''select'', ''textarea'',
                ''option'', ''optgroup'', ''menuitem'', ''fieldset''} \<longrightarrow>
              eval m el = (get_attr el ''disabled'' = None)))" ..
  note m = mh [THEN conjunct1]
  note h = mh [THEN conjunct2, THEN spec, of el_link, THEN conjunct1]
  have t: "tag (etree_element el_link) \<in> xhtml ` {''a'', ''area'', ''link''}"
    by (simp add: el_link_def node_def)
  have a: "get_attr el_link ''href'' \<noteq> None" "get_attr el_link ''disabled'' \<noteq> None"
    by (simp_all add: get_attr_def el_link_def)
  from h t have "eval m el_link = (get_attr el_link ''href'' \<noteq> None)" by (rule mp)
  with a(1) have e: "eval m el_link" by simp
  from m a(2) e show ?thesis by (intro exI [of _ m] conjI)
qed

end
